theory Spec2Isabelle
  imports Complex_Main
begin

section \<open>Data model of \<^verbatim>\<open>zipline/optimize/factory.py\<close>\<close>

text \<open>
  A \<^verbatim>\<open>datetime\<close> is an instant with microsecond resolution and a \<^verbatim>\<open>timedelta\<close> a
  signed duration with the same resolution; both are counted in microseconds.
\<close>

type_synonym datetime = int
type_synonym timedelta = int

definition timedelta_days :: "int \<Rightarrow> timedelta" where
  "timedelta_days days = days * 86400000000"

text \<open>
  The trading environment is an object with the attributes the module reads
  (\<^verbatim>\<open>first_open\<close>) and writes (\<^verbatim>\<open>period_end\<close>).
\<close>

record trading_environment =
  first_open :: datetime
  period_end :: datetime

text \<open>
  \<^verbatim>\<open>zp.DATASOURCE_TYPE\<close> is declared in \<^verbatim>\<open>zipline.protocol\<close>; the module uses its member
  \<^verbatim>\<open>TRADE\<close> only, the other members are kept apart by a number.
\<close>

datatype DATASOURCE_TYPE = TRADE | OTHER_DATASOURCE_TYPE nat

text \<open>
  The event \<^verbatim>\<open>zp.ndict({"type": .., "sid": .., "price": .., "volume": .., "dt": ..})\<close>.
  The price is the Python float \<^verbatim>\<open>base_price - amplitude/2.\<close> updated by integer steps; for
  the integer arguments of the docstring it is a multiple of one half, which a float
  holds exactly, so it is modelled by the rational number it denotes.
\<close>

record event =
  ev_type :: DATASOURCE_TYPE
  ev_sid :: int
  ev_price :: rat
  ev_volume :: int
  ev_dt :: datetime

text \<open>\<^verbatim>\<open>SpecificEquityTrades(source_id, event_list)\<close>: a named list of events.\<close>

record SpecificEquityTrades =
  source_id :: string
  event_list :: "event list"

subsection \<open>\<^verbatim>\<open>str\<close> of an integer\<close>

definition digit_char :: "nat \<Rightarrow> char" where
  "digit_char d = char_of (48 + d)"

fun str_nat :: "nat \<Rightarrow> string" where
  "str_nat n = (if n < 10 then [digit_char n] else str_nat (n div 10) @ [digit_char (n mod 10)])"

declare str_nat.simps [simp del]

definition str :: "int \<Rightarrow> string" where
  "str i = (if i < 0 then CHR ''-'' # str_nat (nat (- i)) else str_nat (nat i))"

subsection \<open>\<^verbatim>\<open>itertools.cycle\<close>\<close>

text \<open>
  The iterator \<^verbatim>\<open>cycle(xs)\<close> keeps the saved items and the position of the next one;
  \<^verbatim>\<open>.next()\<close> returns the item there and moves on, wrapping at the end. The module builds it
  from the two-element literal \<^verbatim>\<open>[1,-1]\<close>, so the position is always in range.
\<close>

type_synonym 'a cycle = "'a list \<times> nat"

definition cycle :: "'a list \<Rightarrow> 'a cycle" where
  "cycle xs = (xs, 0)"

definition cycle_next :: "'a cycle \<Rightarrow> 'a \<times> 'a cycle" where
  "cycle_next c = (fst c ! snd c, (fst c, Suc (snd c) mod length (fst c)))"

section \<open>\<^verbatim>\<open>create_updown_trade_source\<close>\<close>

text \<open>
  The body of \<^verbatim>\<open>for i in xrange(trade_count + 2)\<close>, run \<open>n\<close> times on the loop variables
  \<^verbatim>\<open>cur\<close>, \<^verbatim>\<open>price\<close>, \<^verbatim>\<open>change\<close> and \<^verbatim>\<open>events\<close>. \<^verbatim>\<open>get_next_trading_dt\<close> is imported from
  \<^verbatim>\<open>zipline.utils.factory\<close> and is a parameter.
\<close>

fun updown_loop ::
  "(datetime \<Rightarrow> timedelta \<Rightarrow> trading_environment \<Rightarrow> datetime) \<Rightarrow> int \<Rightarrow> trading_environment \<Rightarrow>
   int \<Rightarrow> int \<Rightarrow> timedelta \<Rightarrow> nat \<Rightarrow> datetime \<times> rat \<times> int cycle \<times> event list \<Rightarrow>
   datetime \<times> rat \<times> int cycle \<times> event list" where
  "updown_loop get_next_trading_dt sid trading_environment amplitude volume one_day 0 st = st"
| "updown_loop get_next_trading_dt sid trading_environment amplitude volume one_day (Suc n)
     (cur, price, change, events) =
     (let cur = get_next_trading_dt cur one_day trading_environment;
          event = \<lparr>ev_type = TRADE, ev_sid = sid, ev_price = price, ev_volume = volume,
                   ev_dt = cur\<rparr>;
          events = events @ [event];
          (c, change) = cycle_next change;
          price = price + of_int (c * amplitude)
      in updown_loop get_next_trading_dt sid trading_environment amplitude volume one_day n
           (cur, price, change, events))"

text \<open>
  The function returns the source; the assignment to \<^verbatim>\<open>trading_environment.period_end\<close> is
  returned as the updated environment. \<^verbatim>\<open>xrange(k)\<close> is empty for \<open>k \<le> 0\<close>, which is
  \<open>nat k\<close> iterations.
\<close>

definition create_updown_trade_source ::
  "(datetime \<Rightarrow> timedelta \<Rightarrow> trading_environment \<Rightarrow> datetime) \<Rightarrow> int \<Rightarrow> int \<Rightarrow>
   trading_environment \<Rightarrow> int \<Rightarrow> int \<Rightarrow> SpecificEquityTrades \<times> trading_environment" where
  "create_updown_trade_source get_next_trading_dt sid trade_count trading_environment
     base_price amplitude =
     (let volume = 1000;
          events = [];
          price = of_int base_price - of_int amplitude / 2;
          cur = first_open trading_environment;
          one_day = timedelta_days 1;
          change = cycle [1, - 1];
          (cur, price, change, events) =
             updown_loop get_next_trading_dt sid trading_environment amplitude volume one_day
               (nat (trade_count + 2)) (cur, price, change, events);
          trading_environment = trading_environment\<lparr>period_end := cur\<rparr>;
          source = \<lparr>source_id = ''updown_'' @ str sid, event_list = events\<rparr>
      in (source, trading_environment))"

section \<open>\<^verbatim>\<open>create_predictable_zipline\<close>\<close>

subsection \<open>Objects, dictionaries and the store\<close>

text \<open>
  \<^verbatim>\<open>BuySellAlgorithm(sid, amount, offset)\<close> is declared in \<^verbatim>\<open>zipline.optimize.algorithms\<close>;
  the constructor is kept as a term holding its three arguments. An algorithm the caller
  supplies is an opaque object told apart by a number.
\<close>

datatype algorithm = BuySellAlgorithm int int int | SuppliedAlgorithm nat

text \<open>
  \<^verbatim>\<open>SIMULATION_STYLE\<close> is declared in \<^verbatim>\<open>zipline.finance.trading\<close>; the module uses its member
  \<^verbatim>\<open>FIXED_SLIPPAGE\<close> only.
\<close>

datatype SIMULATION_STYLE = FIXED_SLIPPAGE | OTHER_SIMULATION_STYLE nat

text \<open>
  The values a configuration holds: the integers of the docstring, the objects the
  function stores itself, and any other object (\<open>PyObject\<close>) passed through untouched.
\<close>

datatype pyval =
    PyInt int
  | PyAlgorithm algorithm
  | PyTradeSource SpecificEquityTrades
  | PyEnvironment trading_environment
  | PySimulationStyle SIMULATION_STYLE
  | PyObject nat

type_synonym dict = "string \<Rightarrow> pyval option"

datatype error = KeyError string | TypeError

text \<open>
  Dictionaries are mutable objects: the store holds them by address, so that the caller's
  dictionary and the copy the function works on are two objects. The store also keeps the
  calls made to the collaborators, in order.
\<close>

type_synonym addr = nat

datatype call =
    Call_create_trading_environment
  | Call_create_updown_trade_source
  | Call_BuySellAlgorithm
  | Call_create_test_zipline
  | Call_simulate

record world =
  heap :: "dict list"
  calls :: "call list"

definition copy :: "addr \<Rightarrow> world \<Rightarrow> addr \<times> world" where
  \<comment> \<open>\<^verbatim>\<open>copy(config)\<close>: a new dictionary with the same items\<close>
  "copy a w = (length (heap w), w\<lparr>heap := heap w @ [heap w ! a]\<rparr>)"

definition getitem :: "addr \<Rightarrow> string \<Rightarrow> world \<Rightarrow> error + pyval" where
  \<comment> \<open>\<^verbatim>\<open>config[k]\<close>\<close>
  "getitem a k w = (case (heap w ! a) k of None \<Rightarrow> Inl (KeyError k) | Some v \<Rightarrow> Inr v)"

definition pop :: "addr \<Rightarrow> string \<Rightarrow> pyval \<Rightarrow> world \<Rightarrow> pyval \<times> world" where
  \<comment> \<open>\<^verbatim>\<open>config.pop(k, d)\<close>\<close>
  "pop a k d w =
     (case (heap w ! a) k of
        None \<Rightarrow> (d, w)
      | Some v \<Rightarrow> (v, w\<lparr>heap := (heap w)[a := (heap w ! a)(k := None)]\<rparr>))"

definition contains :: "addr \<Rightarrow> string \<Rightarrow> world \<Rightarrow> bool" where
  \<comment> \<open>\<^verbatim>\<open>k in config\<close>\<close>
  "contains a k w = ((heap w ! a) k \<noteq> None)"

definition setitem :: "addr \<Rightarrow> string \<Rightarrow> pyval \<Rightarrow> world \<Rightarrow> world" where
  \<comment> \<open>\<^verbatim>\<open>config[k] = v\<close>\<close>
  "setitem a k v w = w\<lparr>heap := (heap w)[a := (heap w ! a)(k \<mapsto> v)]\<rparr>"

definition called :: "call \<Rightarrow> world \<Rightarrow> world" where
  "called c w = w\<lparr>calls := calls w @ [c]\<rparr>"

subsection \<open>The function\<close>

text \<open>
  The collaborators \<^verbatim>\<open>get_next_trading_dt\<close>, \<^verbatim>\<open>create_trading_environment\<close>,
  \<^verbatim>\<open>SimulatedTrading.create_test_zipline\<close> and the created object's \<^verbatim>\<open>simulate\<close> are imported
  from other modules and are parameters; \<open>config\<close> is the address of the caller's
  dictionary, and the keyword defaults are \<open>offset = 0\<close> and \<open>simulate = True\<close>. The result
  is the pair \<^verbatim>\<open>(zipline, config)\<close>, \<open>config\<close> the address of the dictionary used, or
  the exception raised, together with the store.

  The four trade source arguments are integers in the docstring. Python raises
  \<^verbatim>\<open>TypeError\<close> inside \<^verbatim>\<open>create_updown_trade_source\<close> at \<^verbatim>\<open>amplitude/2.\<close> or
  \<^verbatim>\<open>trade_count + 2\<close> for an object that is no number; the model raises it at the call
  for any argument that is not an integer, so it describes no run on such arguments.
\<close>

fun int_args :: "pyval \<Rightarrow> pyval \<Rightarrow> pyval \<Rightarrow> pyval \<Rightarrow> (int \<times> int \<times> int \<times> int) option" where
  "int_args (PyInt sid) (PyInt trade_count) (PyInt base_price) (PyInt amplitude) =
     Some (sid, trade_count, base_price, amplitude)"
| "int_args sid trade_count base_price amplitude = None"

definition create_predictable_zipline ::
  "(datetime \<Rightarrow> timedelta \<Rightarrow> trading_environment \<Rightarrow> datetime) \<Rightarrow> trading_environment \<Rightarrow>
   (dict \<Rightarrow> 'z) \<Rightarrow> ('z \<Rightarrow> 'z) \<Rightarrow> addr \<Rightarrow> int \<Rightarrow> bool \<Rightarrow> world \<Rightarrow>
   (error + 'z \<times> addr) \<times> world" where
  "create_predictable_zipline get_next_trading_dt create_trading_environment
     create_test_zipline zipline_simulate config offset simulate w =
     (let (config, w) = copy config w in
      case getitem config ''sid'' w of
        Inl e \<Rightarrow> (Inl e, w)
      | Inr sid \<Rightarrow>
         (let (amplitude, w) = pop config ''amplitude'' (PyInt 10) w;
              (base_price, w) = pop config ''base_price'' (PyInt 50) w;
              (trade_count, w) = pop config ''trade_count'' (PyInt 3) w;
              trading_environment = create_trading_environment;
              w = called Call_create_trading_environment w;
              w = called Call_create_updown_trade_source w
          in case int_args sid trade_count base_price amplitude of
               None \<Rightarrow> (Inl TypeError, w)
             | Some (sid, trade_count, base_price, amplitude) \<Rightarrow>
                 (let (source, trading_environment) =
                        create_updown_trade_source get_next_trading_dt sid trade_count
                          trading_environment base_price amplitude;
                      w = (if \<not> contains config ''algorithm'' w
                           then setitem config ''algorithm''
                                  (PyAlgorithm (BuySellAlgorithm sid 100 offset))
                                  (called Call_BuySellAlgorithm w)
                           else w);
                      w = setitem config ''order_count'' (PyInt (trade_count - 1)) w;
                      w = setitem config ''trade_count'' (PyInt trade_count) w;
                      w = setitem config ''trade_source'' (PyTradeSource source) w;
                      w = setitem config ''environment'' (PyEnvironment trading_environment) w;
                      w = setitem config ''simulation_style'' (PySimulationStyle FIXED_SLIPPAGE) w;
                      zipline = create_test_zipline (heap w ! config);
                      w = called Call_create_test_zipline w;
                      (zipline, w) =
                        (if simulate then (zipline_simulate zipline, called Call_simulate w)
                         else (zipline, w))
                  in (Inr (zipline, config), w))))"

section \<open>The events of a run, front to back\<close>

text \<open>
  The loop appends to \<open>events\<close>; for the proofs the events it adds are described from the
  first one on, together with the value of \<open>cur\<close> after \<open>n\<close> iterations.
\<close>

abbreviation generated ::
  "(datetime \<Rightarrow> timedelta \<Rightarrow> trading_environment \<Rightarrow> datetime) \<Rightarrow> int \<Rightarrow> int \<Rightarrow>
   trading_environment \<Rightarrow> int \<Rightarrow> int \<Rightarrow> event list" where
  "generated adv sid trade_count env base_price amplitude \<equiv>
     event_list (fst (create_updown_trade_source adv sid trade_count env base_price amplitude))"

fun updown_events ::
  "(datetime \<Rightarrow> timedelta \<Rightarrow> trading_environment \<Rightarrow> datetime) \<Rightarrow> int \<Rightarrow> trading_environment \<Rightarrow>
   int \<Rightarrow> int \<Rightarrow> timedelta \<Rightarrow> nat \<Rightarrow> datetime \<Rightarrow> rat \<Rightarrow> int cycle \<Rightarrow> event list" where
  "updown_events adv sid env amplitude volume one_day 0 cur price change = []"
| "updown_events adv sid env amplitude volume one_day (Suc n) cur price change =
     \<lparr>ev_type = TRADE, ev_sid = sid, ev_price = price, ev_volume = volume,
      ev_dt = adv cur one_day env\<rparr> #
     updown_events adv sid env amplitude volume one_day n (adv cur one_day env)
       (price + of_int (fst (cycle_next change) * amplitude)) (snd (cycle_next change))"

fun updown_cur ::
  "(datetime \<Rightarrow> timedelta \<Rightarrow> trading_environment \<Rightarrow> datetime) \<Rightarrow> trading_environment \<Rightarrow>
   timedelta \<Rightarrow> nat \<Rightarrow> datetime \<Rightarrow> datetime" where
  "updown_cur adv env one_day 0 cur = cur"
| "updown_cur adv env one_day (Suc n) cur = updown_cur adv env one_day n (adv cur one_day env)"

text \<open>
  What \<^verbatim>\<open>config.pop(k, v)\<close> returns on the dictionary \<open>d\<close>: the caller's value or the
  default. \<open>final_config\<close> is the dictionary the function ends with when it starts from the
  items \<open>d\<close> and the four integer arguments.
\<close>

definition popped :: "dict \<Rightarrow> string \<Rightarrow> pyval \<Rightarrow> pyval" where
  "popped d k v = (case d k of None \<Rightarrow> v | Some x \<Rightarrow> x)"

definition final_config ::
  "(datetime \<Rightarrow> timedelta \<Rightarrow> trading_environment \<Rightarrow> datetime) \<Rightarrow> trading_environment \<Rightarrow>
   dict \<Rightarrow> int \<Rightarrow> int \<Rightarrow> int \<Rightarrow> int \<Rightarrow> int \<Rightarrow> dict" where
  "final_config adv env d sid trade_count base_price amplitude offset =
     (let d1 = d(''amplitude'' := None, ''base_price'' := None, ''trade_count'' := None);
          d2 = (if d1 ''algorithm'' = None
                then d1(''algorithm'' \<mapsto> PyAlgorithm (BuySellAlgorithm sid 100 offset)) else d1)
      in d2(''order_count'' \<mapsto> PyInt (trade_count - 1),
            ''trade_count'' \<mapsto> PyInt trade_count,
            ''trade_source'' \<mapsto>
               PyTradeSource (fst (create_updown_trade_source adv sid trade_count env base_price amplitude)),
            ''environment'' \<mapsto>
               PyEnvironment (snd (create_updown_trade_source adv sid trade_count env base_price amplitude)),
            ''simulation_style'' \<mapsto> PySimulationStyle FIXED_SLIPPAGE))"

section \<open>Concrete inputs\<close>

text \<open>An environment opening at instant 0 and a calendar in which every day is a trading day.\<close>

definition env0 :: trading_environment where
  "env0 = \<lparr>first_open = 0, period_end = 0\<rparr>"

definition next_day :: "datetime \<Rightarrow> timedelta \<Rightarrow> trading_environment \<Rightarrow> datetime" where
  "next_day t d env = t + d"

text \<open>
  A calendar that trades on five days of every seven: the advancement adds the step until
  the instant falls on a trading day, as a calendar that skips weekends does.
\<close>

definition weekday :: "datetime \<Rightarrow> bool" where
  "weekday t = (t div 86400000000 mod 7 < 5)"

definition weekday_calendar :: "datetime \<Rightarrow> timedelta \<Rightarrow> trading_environment \<Rightarrow> datetime" where
  "weekday_calendar t d env =
     (if weekday (t + d) then t + d else if weekday (t + 2 * d) then t + 2 * d else t + 3 * d)"

text \<open>
  Collaborators for a run of the whole function: the created zipline is the flag "has been
  simulated". Three stores, each holding one caller's dictionary at address 0: \<^verbatim>\<open>{'sid': 1}\<close>,
  a dictionary that supplies all four trade source arguments, and one without \<^verbatim>\<open>sid\<close>.
\<close>

definition fresh_zipline :: "dict \<Rightarrow> bool" where
  "fresh_zipline d = False"

definition run_zipline :: "bool \<Rightarrow> bool" where
  "run_zipline z = True"

definition w_sid_only :: world where
  "w_sid_only = \<lparr>heap = [[''sid'' \<mapsto> PyInt 1]], calls = []\<rparr>"

definition w_supplied :: world where
  "w_supplied =
     \<lparr>heap = [[''sid'' \<mapsto> PyInt 1, ''amplitude'' \<mapsto> PyInt 4, ''base_price'' \<mapsto> PyInt 20,
               ''trade_count'' \<mapsto> PyInt 5]],
      calls = []\<rparr>"

definition w_no_sid :: world where
  "w_no_sid = \<lparr>heap = [[''trade_count'' \<mapsto> PyInt 7]], calls = []\<rparr>"

section \<open>Properties of the loop\<close>

lemma updown_loop_events:
  "snd (snd (snd (updown_loop adv sid env amplitude volume one_day n (cur, price, change, events)))) =
     events @ updown_events adv sid env amplitude volume one_day n cur price change"
  by (induction n arbitrary: cur price change events) (simp_all add: Let_def split: prod.splits)

lemma updown_loop_cur:
  "fst (updown_loop adv sid env amplitude volume one_day n (cur, price, change, events)) =
     updown_cur adv env one_day n cur"
  by (induction n arbitrary: cur price change events)
     (simp_all add: Let_def split: prod.splits)

lemma length_updown_events [simp]:
  "length (updown_events adv sid env amplitude volume one_day n cur price change) = n"
  by (induction n arbitrary: cur price change) simp_all

lemma updown_events_fixed:
  "\<forall>e \<in> set (updown_events adv sid env amplitude volume one_day n cur price change).
     ev_type e = TRADE \<and> ev_sid e = sid \<and> ev_volume e = volume"
  by (induction n arbitrary: cur price change) simp_all

lemma updown_events_first:
  "0 < n \<Longrightarrow>
     ev_price (updown_events adv sid env amplitude volume one_day n cur price change ! 0) = price \<and>
     ev_dt (updown_events adv sid env amplitude volume one_day n cur price change ! 0) =
       adv cur one_day env"
  by (cases n) simp_all



lemma updown_events_dt_step:
  "Suc i < n \<Longrightarrow>
     ev_dt (updown_events adv sid env amplitude volume one_day n cur price change ! Suc i) =
     adv (ev_dt (updown_events adv sid env amplitude volume one_day n cur price change ! i)) one_day env"
proof (induction n arbitrary: cur price change i)
  case 0
  then show ?case by simp
next
  case (Suc n)
  show ?case
  proof (cases i)
    case 0
    with Suc.prems obtain m where m: "n = Suc m" by (cases n) auto
    from 0 show ?thesis by (simp add: m)
  next
    case (Suc j)
    with Suc.prems have j: "Suc j < n" by simp
    from Suc.IH [OF j] Suc show ?thesis by simp
  qed
qed

lemma updown_events_last_dt:
  "0 < n \<Longrightarrow>
     ev_dt (last (updown_events adv sid env amplitude volume one_day n cur price change)) =
       updown_cur adv env one_day n cur"
proof (induction n arbitrary: cur price change)
  case 0
  then show ?case by simp
next
  case (Suc n)
  show ?case
  proof (cases n)
    case 0
    then show ?thesis by simp
  next
    case (Suc m)
    then have "0 < n" by simp
    from Suc.IH [OF this] Suc show ?thesis by simp
  qed
qed

section \<open>Properties of \<^verbatim>\<open>create_updown_trade_source\<close>\<close>

lemma generated_eq:
  "generated adv sid trade_count env base_price amplitude =
     updown_events adv sid env amplitude 1000 (timedelta_days 1) (nat (trade_count + 2))
       (first_open env) (of_int base_price - of_int amplitude / 2) ([1, - 1], 0)"
  using updown_loop_events [of adv sid env amplitude 1000 "timedelta_days 1"
      "nat (trade_count + 2)" "first_open env" "of_int base_price - of_int amplitude / 2"
      "([1, - 1], 0)" "[]"]
  by (simp add: create_updown_trade_source_def cycle_def Let_def split_beta)

lemma period_end_eq:
  "period_end (snd (create_updown_trade_source adv sid trade_count env base_price amplitude)) =
     updown_cur adv env (timedelta_days 1) (nat (trade_count + 2)) (first_open env)"
  using updown_loop_cur [of adv sid env amplitude 1000 "timedelta_days 1"
      "nat (trade_count + 2)" "first_open env" "of_int base_price - of_int amplitude / 2"
      "([1, - 1], 0)" "[]"]
  by (simp add: create_updown_trade_source_def cycle_def Let_def split_beta)

lemma length_generated:
  "length (generated adv sid trade_count env base_price amplitude) = nat (trade_count + 2)"
  by (simp only: generated_eq length_updown_events)

lemma scenario_prices:
  "map ev_price (generated adv 1 3 env 50 10) = [45, 55, 45, 55, 45]"
  by (simp add: generated_eq eval_nat_numeral cycle_next_def)



lemma generated_fixed:
  "\<forall>e \<in> set (generated adv sid trade_count env base_price amplitude).
     ev_type e = TRADE \<and> ev_sid e = sid \<and> ev_volume e = 1000"
  unfolding generated_eq by (rule updown_events_fixed)

lemma weekday_calendar_later:
  "t < weekday_calendar t (timedelta_days 1) env"
  by (simp add: weekday_calendar_def timedelta_days_def)

lemma weekday_calendar_weekday:
  "weekday (weekday_calendar t (timedelta_days 1) env)"
proof -
  define q where "q = t div 86400000000"
  have 1: "(t + 86400000000) div 86400000000 = q + 1"
    and 2: "(t + 2 * 86400000000) div 86400000000 = q + 2"
    and 3: "(t + 3 * 86400000000) div 86400000000 = q + 3"
    unfolding q_def by simp_all
  have "(q + 1) mod 7 < 5 \<or> (q + 2) mod 7 < 5 \<or> (q + 3) mod 7 < 5"
    by presburger
  then show ?thesis
    using 1 2 3 by (auto simp: weekday_calendar_def timedelta_days_def weekday_def)
qed

text \<open>
  C3 as stated fails for a trade count below \<open>- 2\<close>: \<^verbatim>\<open>xrange\<close> of a negative number is
  empty, so the call with trade count \<open>- 3\<close> gives no event, not \<open>- 3 + 2\<close> events.
\<close>

theorem C3_event_count_counterexample:
  "generated next_day 1 (- 3) env0 50 10 = [] \<and>
   int (length (generated next_day 1 (- 3) env0 50 10)) \<noteq> - 3 + 2"
  by (simp add: generated_eq)

text \<open>
  C3, amended. For every trade count \<open>N \<ge> - 2\<close> the returned source holds exactly
  \<open>N + 2\<close> events, and for every trade count each event has the kind \<open>TRADE\<close>, the given
  sid and the volume 1000.
\<close>

theorem C3_event_count:
  "(- 2 \<le> trade_count \<longrightarrow>
      int (length (generated adv sid trade_count env base_price amplitude)) = trade_count + 2) \<and>
   (\<forall>e \<in> set (generated adv sid trade_count env base_price amplitude).
      ev_type e = TRADE \<and> ev_sid e = sid \<and> ev_volume e = 1000)"
  using generated_fixed [of adv sid trade_count env base_price amplitude]
  by (simp add: length_generated)

theorem C3_event_count_witness:
  "(- 2 :: int) \<le> 3 \<and> int (length (generated next_day 1 3 env0 50 10)) = 3 + 2 \<and>
   generated next_day 1 3 env0 50 10 \<noteq> [] \<and>
   ev_type (hd (generated next_day 1 3 env0 50 10)) = TRADE \<and>
   ev_sid (hd (generated next_day 1 3 env0 50 10)) = 1 \<and>
   ev_volume (hd (generated next_day 1 3 env0 50 10)) = 1000"
proof -
  have len: "length (generated next_day 1 3 env0 50 10) = 5"
    by (simp add: length_generated)
  then have ne: "generated next_day 1 3 env0 50 10 \<noteq> []" by auto
  then have "hd (generated next_day 1 3 env0 50 10) \<in> set (generated next_day 1 3 env0 50 10)"
    by simp
  with C3_event_count [of 3 next_day 1 env0 50 10] ne show ?thesis
    by simp
qed

text \<open>
  C4. When the advancement function returns, from every instant, a strictly later instant
  that is a valid trading instant, the first timestamp is the advancement of
  \<open>first_open\<close> by one day, each further timestamp is the advancement of the previous one by
  one day, the timestamps are strictly increasing, and each is a valid trading instant.
\<close>

theorem C4_timestamps:
  assumes adv: "\<forall>t. t < adv t (timedelta_days 1) env \<and> valid (adv t (timedelta_days 1) env)"
  shows "(generated adv sid trade_count env base_price amplitude \<noteq> [] \<longrightarrow>
            ev_dt (generated adv sid trade_count env base_price amplitude ! 0) =
              adv (first_open env) (timedelta_days 1) env) \<and>
         (\<forall>i. Suc i < length (generated adv sid trade_count env base_price amplitude) \<longrightarrow>
            ev_dt (generated adv sid trade_count env base_price amplitude ! Suc i) =
              adv (ev_dt (generated adv sid trade_count env base_price amplitude ! i))
                (timedelta_days 1) env \<and>
            ev_dt (generated adv sid trade_count env base_price amplitude ! i) <
              ev_dt (generated adv sid trade_count env base_price amplitude ! Suc i)) \<and>
         sorted_wrt (<) (map ev_dt (generated adv sid trade_count env base_price amplitude)) \<and>
         (\<forall>e \<in> set (generated adv sid trade_count env base_price amplitude). valid (ev_dt e))"
proof -
  let ?ev = "generated adv sid trade_count env base_price amplitude"
  have first: "ev_dt (?ev ! 0) = adv (first_open env) (timedelta_days 1) env" if "?ev \<noteq> []"
  proof -
    from that have "0 < length ?ev" by simp
    then have "0 < nat (trade_count + 2)" by (simp only: length_generated)
    then show ?thesis by (simp only: generated_eq updown_events_first)
  qed
  have step: "ev_dt (?ev ! Suc i) = adv (ev_dt (?ev ! i)) (timedelta_days 1) env"
    if "Suc i < length ?ev" for i
  proof -
    from that have "Suc i < nat (trade_count + 2)" by (simp only: length_generated)
    then show ?thesis by (simp only: generated_eq updown_events_dt_step)
  qed
  have less: "ev_dt (?ev ! i) < ev_dt (?ev ! Suc i)" if "Suc i < length ?ev" for i
    using step [OF that] adv by simp
  have "\<forall>i. Suc i < length (map ev_dt ?ev) \<longrightarrow> map ev_dt ?ev ! i < map ev_dt ?ev ! Suc i"
    using less by simp
  then have sorted: "sorted_wrt (<) (map ev_dt ?ev)"
    by (simp only: sorted_wrt_iff_nth_Suc_transp [OF transp_on_less])
  have valid: "valid (ev_dt e)" if "e \<in> set ?ev" for e
  proof -
    from that obtain i where i: "i < length ?ev" and e: "e = ?ev ! i"
      by (auto simp: in_set_conv_nth)
    show ?thesis
    proof (cases i)
      case 0
      with i have "?ev \<noteq> []" by auto
      from first [OF this] adv e 0 show ?thesis by simp
    next
      case (Suc j)
      with i have "Suc j < length ?ev" by simp
      from step [OF this] adv e Suc show ?thesis by simp
    qed
  qed
  from first step less sorted valid show ?thesis by blast
qed

theorem C4_timestamps_witness:
  "(\<forall>t. t < weekday_calendar t (timedelta_days 1) env0 \<and>
        weekday (weekday_calendar t (timedelta_days 1) env0)) \<and>
   map ev_dt (generated weekday_calendar 1 3 env0 50 10) =
     [86400000000, 172800000000, 259200000000, 345600000000, 604800000000] \<and>
   sorted_wrt (<) (map ev_dt (generated weekday_calendar 1 3 env0 50 10)) \<and>
   list_all (\<lambda>e. weekday (ev_dt e)) (generated weekday_calendar 1 3 env0 50 10)"
proof -
  have adv: "\<forall>t. t < weekday_calendar t (timedelta_days 1) env0 \<and>
        weekday (weekday_calendar t (timedelta_days 1) env0)"
    by (simp add: weekday_calendar_later weekday_calendar_weekday)
  have dts: "map ev_dt (generated weekday_calendar 1 3 env0 50 10) =
     [86400000000, 172800000000, 259200000000, 345600000000, 604800000000]"
    by code_simp
  from C4_timestamps [of weekday_calendar env0 weekday 1 3 50 10] adv dts
  show ?thesis by (simp add: list_all_iff)
qed

text \<open>
  C5. When at least one event is generated, the environment's \<open>period_end\<close> after the call
  is the timestamp of the last event.
\<close>

theorem C5_period_end:
  "generated adv sid trade_count env base_price amplitude \<noteq> [] \<longrightarrow>
     period_end (snd (create_updown_trade_source adv sid trade_count env base_price amplitude)) =
       ev_dt (last (generated adv sid trade_count env base_price amplitude))"
proof
  assume "generated adv sid trade_count env base_price amplitude \<noteq> []"
  then have "0 < length (generated adv sid trade_count env base_price amplitude)" by simp
  then have "0 < nat (trade_count + 2)" by (simp only: length_generated)
  then show "period_end (snd (create_updown_trade_source adv sid trade_count env base_price amplitude)) =
       ev_dt (last (generated adv sid trade_count env base_price amplitude))"
    by (simp only: generated_eq period_end_eq updown_events_last_dt)
qed

theorem C5_period_end_witness:
  "generated weekday_calendar 1 3 env0 50 10 \<noteq> [] \<and>
   period_end (snd (create_updown_trade_source weekday_calendar 1 3 env0 50 10)) =
     ev_dt (last (generated weekday_calendar 1 3 env0 50 10))"
proof -
  have "length (generated weekday_calendar 1 3 env0 50 10) = 5"
    by (simp add: length_generated)
  then have ne: "generated weekday_calendar 1 3 env0 50 10 \<noteq> []" by auto
  with C5_period_end [of weekday_calendar 1 3 env0 50 10] show ?thesis by simp
qed

text \<open>
  C10. For every trade count \<open>\<le> - 2\<close> the loop runs zero times, the event sequence is empty,
  and \<open>period_end\<close> is set to the environment's \<open>first_open\<close>.
\<close>

theorem C10_negative_trade_count:
  "trade_count \<le> - 2 \<Longrightarrow>
     nat (trade_count + 2) = 0 \<and>
     generated adv sid trade_count env base_price amplitude = [] \<and>
     period_end (snd (create_updown_trade_source adv sid trade_count env base_price amplitude)) =
       first_open env"
  by (simp add: generated_eq period_end_eq)

theorem C10_negative_trade_count_witness:
  "(- 5 :: int) \<le> - 2 \<and> generated weekday_calendar 1 (- 5) env0 50 10 = [] \<and>
   period_end (snd (create_updown_trade_source weekday_calendar 1 (- 5) env0 50 10)) = 0"
  using C10_negative_trade_count [of "- 5" weekday_calendar 1 env0 50 10]
  by (simp add: env0_def)

section \<open>Properties of \<^verbatim>\<open>create_predictable_zipline\<close>\<close>

text \<open>
  The three ways the function ends: \<^verbatim>\<open>KeyError\<close> when \<^verbatim>\<open>sid\<close> is missing,
  \<^verbatim>\<open>TypeError\<close> when an argument is not an integer, and the returned pair otherwise.
\<close>

lemma pop_fst: "fst (pop a k v w) = popped (heap w ! a) k v"
  by (simp add: pop_def popped_def split: option.splits)

lemma pop_snd: "snd (pop a k v w) = w\<lparr>heap := (heap w)[a := (heap w ! a)(k := None)]\<rparr>"
proof (cases "(heap w ! a) k")
  case None
  then have "(heap w ! a)(k := None) = heap w ! a" by (simp add: fun_upd_idem)
  with None show ?thesis by (simp add: pop_def)
next
  case (Some x)
  then show ?thesis by (simp add: pop_def)
qed

lemma cpz_KeyError:
  "(heap w ! config) ''sid'' = None \<Longrightarrow>
     create_predictable_zipline adv env mk sim config offset simulate w =
       (Inl (KeyError ''sid''), w\<lparr>heap := heap w @ [heap w ! config]\<rparr>)"
  by (simp add: create_predictable_zipline_def copy_def getitem_def)

lemma cpz_typed:
  assumes "(heap w ! config) ''sid'' = Some (PyInt sid)"
    and "popped (heap w ! config) ''amplitude'' (PyInt 10) = PyInt amplitude"
    and "popped (heap w ! config) ''base_price'' (PyInt 50) = PyInt base_price"
    and "popped (heap w ! config) ''trade_count'' (PyInt 3) = PyInt trade_count"
  shows "create_predictable_zipline adv env mk sim config offset simulate w =
     (Inr (if simulate
           then sim (mk (final_config adv env (heap w ! config) sid trade_count base_price amplitude offset))
           else mk (final_config adv env (heap w ! config) sid trade_count base_price amplitude offset),
           length (heap w)),
      \<lparr>heap = heap w @
          [final_config adv env (heap w ! config) sid trade_count base_price amplitude offset],
       calls = calls w @
         [Call_create_trading_environment, Call_create_updown_trade_source] @
         (if (heap w ! config) ''algorithm'' = None then [Call_BuySellAlgorithm] else []) @
         [Call_create_test_zipline] @ (if simulate then [Call_simulate] else [])\<rparr>)"
  using assms
  apply (cases w)
  apply (simp add: create_predictable_zipline_def copy_def getitem_def Let_def split_beta
      pop_fst pop_snd popped_def)
  apply (simp add: setitem_def called_def contains_def final_config_def Let_def)
  done


lemma popped_upd_other: "k \<noteq> k' \<Longrightarrow> popped (d(k' := x)) k v = popped d k v"
  by (simp add: popped_def)

lemma int_args_SomeD:
  "int_args v1 v2 v3 v4 = Some (s, t, b, a) \<Longrightarrow>
     v1 = PyInt s \<and> v2 = PyInt t \<and> v3 = PyInt b \<and> v4 = PyInt a"
  by (erule int_args.elims) simp_all

lemma cpz_TypeError:
  assumes "(heap w ! config) ''sid'' = Some v"
    and "int_args v (popped (heap w ! config) ''trade_count'' (PyInt 3))
           (popped (heap w ! config) ''base_price'' (PyInt 50))
           (popped (heap w ! config) ''amplitude'' (PyInt 10)) = None"
  shows "create_predictable_zipline adv env mk sim config offset simulate w =
     (Inl TypeError,
      \<lparr>heap = heap w @
          [(heap w ! config)(''amplitude'' := None, ''base_price'' := None, ''trade_count'' := None)],
       calls = calls w @ [Call_create_trading_environment, Call_create_updown_trade_source]\<rparr>)"
  using assms
  apply (cases w)
  apply (simp add: create_predictable_zipline_def copy_def getitem_def Let_def split_beta
      pop_fst pop_snd popped_upd_other called_def)
  done

lemma cpz_Inr_typed:
  assumes "create_predictable_zipline adv env mk sim config offset simulate w = (Inr (z, c), w')"
  shows "\<exists>sid amplitude base_price trade_count.
           (heap w ! config) ''sid'' = Some (PyInt sid) \<and>
           popped (heap w ! config) ''amplitude'' (PyInt 10) = PyInt amplitude \<and>
           popped (heap w ! config) ''base_price'' (PyInt 50) = PyInt base_price \<and>
           popped (heap w ! config) ''trade_count'' (PyInt 3) = PyInt trade_count"
proof (cases "(heap w ! config) ''sid''")
  case None
  from cpz_KeyError [OF this, of adv env mk sim offset simulate] assms show ?thesis by simp
next
  case (Some v)
  show ?thesis
  proof (cases "int_args v (popped (heap w ! config) ''trade_count'' (PyInt 3))
           (popped (heap w ! config) ''base_price'' (PyInt 50))
           (popped (heap w ! config) ''amplitude'' (PyInt 10))")
    case None
    from cpz_TypeError [OF Some this, of adv env mk sim offset simulate] assms show ?thesis
      by simp
  next
    case (Some x)
    obtain s t b a where "x = (s, t, b, a)" by (cases x) auto
    with Some have "int_args v (popped (heap w ! config) ''trade_count'' (PyInt 3))
           (popped (heap w ! config) ''base_price'' (PyInt 50))
           (popped (heap w ! config) ''amplitude'' (PyInt 10)) = Some (s, t, b, a)" by simp
    from int_args_SomeD [OF this] \<open>(heap w ! config) ''sid'' = Some v\<close> show ?thesis by simp
  qed
qed

lemma cpz_heap:
  "\<exists>d. heap (snd (create_predictable_zipline adv env mk sim config offset simulate w)) =
         heap w @ [d]"
proof (cases "(heap w ! config) ''sid''")
  case None
  from cpz_KeyError [OF this, of adv env mk sim offset simulate] show ?thesis by simp
next
  case (Some v)
  show ?thesis
  proof (cases "int_args v (popped (heap w ! config) ''trade_count'' (PyInt 3))
           (popped (heap w ! config) ''base_price'' (PyInt 50))
           (popped (heap w ! config) ''amplitude'' (PyInt 10))")
    case None
    from cpz_TypeError [OF Some this, of adv env mk sim offset simulate] show ?thesis
      by simp
  next
    case (Some x)
    obtain s t b a where "x = (s, t, b, a)" by (cases x) auto
    with Some have "int_args v (popped (heap w ! config) ''trade_count'' (PyInt 3))
           (popped (heap w ! config) ''base_price'' (PyInt 50))
           (popped (heap w ! config) ''amplitude'' (PyInt 10)) = Some (s, t, b, a)" by simp
    from int_args_SomeD [OF this] \<open>(heap w ! config) ''sid'' = Some v\<close>
    have "(heap w ! config) ''sid'' = Some (PyInt s)"
      and "popped (heap w ! config) ''amplitude'' (PyInt 10) = PyInt a"
      and "popped (heap w ! config) ''base_price'' (PyInt 50) = PyInt b"
      and "popped (heap w ! config) ''trade_count'' (PyInt 3) = PyInt t"
      by simp_all
    from cpz_typed [OF this, of adv env mk sim offset simulate] show ?thesis by simp
  qed
qed

lemma final_config_lookup:
  "final_config adv env d sid trade_count base_price amplitude offset ''amplitude'' = None"
  "final_config adv env d sid trade_count base_price amplitude offset ''base_price'' = None"
  "final_config adv env d sid trade_count base_price amplitude offset ''order_count'' =
     Some (PyInt (trade_count - 1))"
  "final_config adv env d sid trade_count base_price amplitude offset ''trade_count'' =
     Some (PyInt trade_count)"
  "final_config adv env d sid trade_count base_price amplitude offset ''algorithm'' =
     (case d ''algorithm'' of
        None \<Rightarrow> Some (PyAlgorithm (BuySellAlgorithm sid 100 offset))
      | Some a \<Rightarrow> Some a)"
  "final_config adv env d sid trade_count base_price amplitude offset ''trade_source'' =
     Some (PyTradeSource (fst (create_updown_trade_source adv sid trade_count env base_price amplitude)))"
  by (simp_all add: final_config_def Let_def split: option.splits)


lemma cpz_sid_only:
  assumes "heap w ! config = [''sid'' \<mapsto> PyInt 1]"
  shows "create_predictable_zipline adv env mk sim config offset simulate w =
     (Inr (if simulate
           then sim (mk (final_config adv env [''sid'' \<mapsto> PyInt 1] 1 3 50 10 offset))
           else mk (final_config adv env [''sid'' \<mapsto> PyInt 1] 1 3 50 10 offset),
           length (heap w)),
      \<lparr>heap = heap w @ [final_config adv env [''sid'' \<mapsto> PyInt 1] 1 3 50 10 offset],
       calls = calls w @
         [Call_create_trading_environment, Call_create_updown_trade_source,
          Call_BuySellAlgorithm, Call_create_test_zipline] @
         (if simulate then [Call_simulate] else [])\<rparr>)"
proof -
  have "(heap w ! config) ''sid'' = Some (PyInt 1)"
    and "popped (heap w ! config) ''amplitude'' (PyInt 10) = PyInt 10"
    and "popped (heap w ! config) ''base_price'' (PyInt 50) = PyInt 50"
    and "popped (heap w ! config) ''trade_count'' (PyInt 3) = PyInt 3"
    by (simp_all add: assms popped_def)
  from cpz_typed [OF this, of adv env mk sim offset simulate] show ?thesis
    by (simp add: assms)
qed



text \<open>
  C2 as stated fails: the final configuration of the run on \<^verbatim>\<open>{'sid': 1}\<close> has no key
  \<^verbatim>\<open>amplitude\<close> and no key \<^verbatim>\<open>base_price\<close>; both are popped (under the comment
  \<^verbatim>\<open># remove\<close>) and never stored again.
\<close>

theorem C2_defaults_counterexample:
  "fst (create_predictable_zipline next_day env0 fresh_zipline run_zipline 0 0 True w_sid_only) =
     Inr (True, 1) \<and>
   (heap (snd (create_predictable_zipline next_day env0 fresh_zipline run_zipline 0 0 True
      w_sid_only)) ! 1) ''amplitude'' \<noteq> Some (PyInt 10) \<and>
   (heap (snd (create_predictable_zipline next_day env0 fresh_zipline run_zipline 0 0 True
      w_sid_only)) ! 1) ''base_price'' \<noteq> Some (PyInt 50)"
proof -
  have "heap w_sid_only ! 0 = [''sid'' \<mapsto> PyInt 1]"
    by (simp add: w_sid_only_def)
  from cpz_sid_only [OF this, of next_day env0 fresh_zipline run_zipline 0 True]
  show ?thesis
    by (simp add: final_config_lookup run_zipline_def w_sid_only_def)
qed

text \<open>
  C2, amended. On the configuration \<^verbatim>\<open>{'sid': 1}\<close> with offset 0 the function returns, and
  the final configuration holds \<^verbatim>\<open>trade_count = 3\<close>, \<^verbatim>\<open>order_count = 2\<close> and the default
  algorithm \<^verbatim>\<open>BuySellAlgorithm(1, 100, 0)\<close>. The defaults amplitude 10 and base price 50 are
  used for the trade source, whose prices are 45, 55, 45, 55, 45; they are not keys of the
  final configuration.
\<close>

theorem C2_defaults:
  assumes "heap w ! config = [''sid'' \<mapsto> PyInt 1]"
  shows "\<exists>z c w' source.
     create_predictable_zipline adv env mk sim config 0 simulate w = (Inr (z, c), w') \<and>
     (heap w' ! c) ''trade_count'' = Some (PyInt 3) \<and>
     (heap w' ! c) ''order_count'' = Some (PyInt 2) \<and>
     (heap w' ! c) ''algorithm'' = Some (PyAlgorithm (BuySellAlgorithm 1 100 0)) \<and>
     (heap w' ! c) ''trade_source'' = Some (PyTradeSource source) \<and>
     map ev_price (event_list source) = [45, 55, 45, 55, 45] \<and>
     (heap w' ! c) ''amplitude'' = None \<and>
     (heap w' ! c) ''base_price'' = None"
  using cpz_sid_only [OF assms, of adv env mk sim 0 simulate]
  by (simp add: final_config_lookup scenario_prices)

theorem C2_defaults_witness:
  "heap w_sid_only ! 0 = [''sid'' \<mapsto> PyInt 1] \<and>
   (\<exists>z c w'.
      create_predictable_zipline next_day env0 fresh_zipline run_zipline 0 0 True w_sid_only =
        (Inr (z, c), w') \<and>
      (heap w' ! c) ''order_count'' = Some (PyInt 2) \<and>
      (heap w' ! c) ''algorithm'' = Some (PyAlgorithm (BuySellAlgorithm 1 100 0)))"
proof -
  have h: "heap w_sid_only ! 0 = [''sid'' \<mapsto> PyInt 1]"
    by (simp add: w_sid_only_def)
  from C2_defaults [OF h, of next_day env0 fresh_zipline run_zipline True] h
  show ?thesis by blast
qed

text \<open>
  C6. The caller's dictionary is the same after the call as before it, whether the function
  returns or raises: the pops and the insertions go to the copy, which is another object
  than the caller's.
\<close>

theorem C6_config_unchanged:
  assumes "config < length (heap w)"
  shows "heap (snd (create_predictable_zipline adv env mk sim config offset simulate w)) ! config =
           heap w ! config \<and>
         (\<forall>z c. fst (create_predictable_zipline adv env mk sim config offset simulate w) =
             Inr (z, c) \<longrightarrow> c \<noteq> config)"
proof
  from cpz_heap [of adv env mk sim config offset simulate w] assms
  show "heap (snd (create_predictable_zipline adv env mk sim config offset simulate w)) ! config =
           heap w ! config"
    by (auto simp: nth_append)
next
  show "\<forall>z c. fst (create_predictable_zipline adv env mk sim config offset simulate w) =
             Inr (z, c) \<longrightarrow> c \<noteq> config"
  proof (intro allI impI)
    fix z c
    assume r: "fst (create_predictable_zipline adv env mk sim config offset simulate w) = Inr (z, c)"
    then have eq: "create_predictable_zipline adv env mk sim config offset simulate w =
        (Inr (z, c), snd (create_predictable_zipline adv env mk sim config offset simulate w))"
      by (metis prod.collapse)
    from cpz_Inr_typed [OF eq] obtain s a b t where
      "(heap w ! config) ''sid'' = Some (PyInt s)"
      "popped (heap w ! config) ''amplitude'' (PyInt 10) = PyInt a"
      "popped (heap w ! config) ''base_price'' (PyInt 50) = PyInt b"
      "popped (heap w ! config) ''trade_count'' (PyInt 3) = PyInt t"
      by blast
    from cpz_typed [OF this, of adv env mk sim offset simulate] r
    have "c = length (heap w)" by simp
    with assms show "c \<noteq> config" by simp
  qed
qed

theorem C6_config_unchanged_witness:
  "(0::nat) < length (heap w_supplied) \<and>
   heap (snd (create_predictable_zipline next_day env0 fresh_zipline run_zipline 0 0 True
     w_supplied)) ! 0 =
     [''sid'' \<mapsto> PyInt 1, ''amplitude'' \<mapsto> PyInt 4, ''base_price'' \<mapsto> PyInt 20,
      ''trade_count'' \<mapsto> PyInt 5]"
proof -
  have h: "0 < length (heap w_supplied)" by (simp add: w_supplied_def)
  from C6_config_unchanged [OF h, of next_day env0 fresh_zipline run_zipline 0 True] h
  show ?thesis by (simp add: w_supplied_def)
qed



text \<open>
  C8. When the configuration has no key \<^verbatim>\<open>sid\<close> the function raises
  \<^verbatim>\<open>KeyError('sid')\<close>, and no collaborator has been called: no environment is created, no
  trade source built, no zipline created or simulated.
\<close>

theorem C8_missing_sid:
  assumes "(heap w ! config) ''sid'' = None"
  shows "fst (create_predictable_zipline adv env mk sim config offset simulate w) =
           Inl (KeyError ''sid'') \<and>
         calls (snd (create_predictable_zipline adv env mk sim config offset simulate w)) =
           calls w"
  by (simp add: cpz_KeyError [OF assms])

theorem C8_missing_sid_witness:
  "(heap w_no_sid ! 0) ''sid'' = None \<and>
   fst (create_predictable_zipline next_day env0 fresh_zipline run_zipline 0 0 True w_no_sid) =
     Inl (KeyError ''sid'') \<and>
   calls (snd (create_predictable_zipline next_day env0 fresh_zipline run_zipline 0 0 True
     w_no_sid)) = []"
proof -
  have h: "(heap w_no_sid ! 0) ''sid'' = None" by (simp add: w_no_sid_def)
  have c: "calls w_no_sid = []" by (simp add: w_no_sid_def)
  from C8_missing_sid [OF h, of next_day env0 fresh_zipline run_zipline 0 True] h c
  show ?thesis by simp
qed



end
